theory Spec2Isabelle
  imports Main "HOL-Library.Sublist"
begin

section \<open>Python values\<close>

text \<open>
  A Python \<open>str\<close> is a sequence of code points. It is modelled as a \<open>string\<close> whose
  characters are the code points below 256 (ASCII and Latin-1), one \<open>char\<close> per code
  point, so that \<open>length\<close> is Python's \<open>len\<close>. A \<open>bytes\<close> value is a list of bytes,
  one \<open>char\<close> per byte. Logging is not modelled: it changes no result.
\<close>

type_synonym bytes = string

text \<open>
  \<open>str.lower()\<close> on one code point below 256: the capital letters \<open>A\<close> to \<open>Z\<close>
  (65 to 90) and the capital Latin-1 letters (192 to 214 and 216 to 222) move up by 32;
  every other code point below 256 is its own lower case.
\<close>

definition py_lower_char :: "char \<Rightarrow> char" where
  "py_lower_char c =
     (let n = (of_char c :: nat)
      in if (65 \<le> n \<and> n \<le> 90) \<or> (192 \<le> n \<and> n \<le> 214) \<or> (216 \<le> n \<and> n \<le> 222)
         then char_of (n + 32) else c)"

definition lower :: "string \<Rightarrow> string" where
  "lower s = map py_lower_char s"

text \<open>\<open>s.startswith(p)\<close>.\<close>

definition startswith :: "string \<Rightarrow> string \<Rightarrow> bool" where
  "startswith s p = prefix p s"

text \<open>
  \<open>s.split(sep, 1)\<close> for a separator of one character: the text before the first
  separator and the text after it, or \<open>s\<close> alone when it holds no separator.
\<close>

definition str_split_max1 :: "char \<Rightarrow> string \<Rightarrow> string list" where
  "str_split_max1 sep s =
     (if sep \<in> set s
      then [takeWhile (\<lambda>c. c \<noteq> sep) s, tl (dropWhile (\<lambda>c. c \<noteq> sep) s)]
      else [s])"

text \<open>\<open>s.split(sep)\<close> for a separator of one character; the result is never empty.\<close>

fun str_split :: "char \<Rightarrow> string \<Rightarrow> string list" where
  "str_split sep [] = [[]]"
| "str_split sep (c # cs) =
     (if c = sep then [] # str_split sep cs
      else (case str_split sep cs of [] \<Rightarrow> [[c]] | p # ps \<Rightarrow> (c # p) # ps))"

text \<open>
  \<open>s.replace(old, new)\<close> for a non-empty \<open>old\<close>: every occurrence, found from left to
  right without overlap, is replaced.
\<close>

fun str_replace :: "string \<Rightarrow> string \<Rightarrow> string \<Rightarrow> string" where
  "str_replace old new [] = []"
| "str_replace old new (c # cs) =
     (if old \<noteq> [] \<and> prefix old (c # cs)
      then new @ str_replace old new (drop (length old) (c # cs))
      else c # str_replace old new cs)"

text \<open>
  \<open>s.encode('utf-8')\<close> on code points below 256: one byte below 128, two bytes
  (\<open>110xxxxx 10xxxxxx\<close>) from 128 on.
\<close>

definition utf8_encode_char :: "char \<Rightarrow> bytes" where
  "utf8_encode_char c =
     (let n = (of_char c :: nat)
      in if n < 128 then [c] else [char_of (192 + n div 64), char_of (128 + n mod 64)])"

definition utf8_encode :: "string \<Rightarrow> bytes" where
  "utf8_encode s = concat (map utf8_encode_char s)"

text \<open>The two characters \<open>\r\n\<close>.\<close>

definition CRLF :: string where
  "CRLF = [CHR 0x0D, CHR 0x0A]"

text \<open>
  The exceptions raised on the paths modelled here; each is an instance of Python's
  \<open>Exception\<close>, which is what the adapters' \<open>except Exception\<close> catches. A raise is the
  value \<open>Inl e\<close>, a normal return \<open>Inr v\<close>. (Cancellation and interrupts are not
  instances of \<open>Exception\<close>; they belong to the scheduler and are outside this
  sequential model.)
\<close>

datatype exn = ValueError | IndexError | AttributeError | Binascii_Error
  | ClientError | TimeoutError | ContentTypeError | JSONDecodeError

text \<open>
  What \<open>await response.json()\<close> returns: \<open>None\<close>, a \<open>bool\<close>, a number, a \<open>str\<close>, a
  \<open>list\<close> or a \<open>dict\<close> (an association list, looked up by \<open>map_of\<close>). Numbers are
  integers here; a float passes the same truth test (non-zero).
\<close>

datatype json = JNull | JBool bool | JNum int | JStr string
  | JArr "json list" | JObj "(string \<times> json) list"

text \<open>Python's truth value of such a value, as \<open>if x:\<close> and \<open>not x\<close> read it.\<close>

fun truthy :: "json \<Rightarrow> bool" where
  "truthy JNull = False"
| "truthy (JBool b) = b"
| "truthy (JNum n) = (n \<noteq> 0)"
| "truthy (JStr s) = (s \<noteq> [])"
| "truthy (JArr xs) = (xs \<noteq> [])"
| "truthy (JObj kvs) = (kvs \<noteq> [])"

text \<open>
  \<open>result.get(key)\<close>: the member, \<open>None\<close> when the \<open>dict\<close> has no such key, and an
  \<open>AttributeError\<close> when \<open>result\<close> is no \<open>dict\<close> (a list, a string, a number and
  \<open>None\<close> have no \<open>get\<close>).
\<close>

fun dict_get :: "json \<Rightarrow> string \<Rightarrow> exn + json" where
  "dict_get (JObj kvs) key = Inr (case map_of kvs key of None \<Rightarrow> JNull | Some v \<Rightarrow> v)"
| "dict_get _ key = Inl AttributeError"

section \<open>The HTTP client and the other library calls\<close>

text \<open>
  A request as \<open>session.post\<close> receives it: the URL, the \<open>headers\<close> argument, the
  \<open>data\<close> (bytes) or \<open>json\<close> argument, and the total timeout in seconds.
\<close>

datatype payload = Data bytes | Json json

record http_request =
  url :: string
  req_headers :: "(string \<times> string) list"
  payload :: payload
  timeout_total :: nat

text \<open>
  A response as the adapters read it: \<open>response.status\<close>, \<open>response.ok\<close>,
  \<open>response.headers.get\<close>, and what awaiting \<open>response.text()\<close> and
  \<open>response.json()\<close> gives (either may raise).
\<close>

record http_response =
  status :: int
  ok :: bool
  headers :: "string \<rightharpoonup> string"
  text_body :: "exn + string"
  json_body :: "exn + json"

text \<open>
  What the adapters take from outside the repository, as parameters: the library's
  \<open>base64.b64decode\<close> (which may raise) and \<open>base64.b64encode\<close> followed by
  \<open>decode('utf-8')\<close>, the random \<open>secrets.token_hex\<close>, the network behind
  \<open>session.post\<close> (\<open>Inl e\<close>: opening the session or posting raised \<open>e\<close>), and the
  configured \<open>CWD_PW_API_KEY\<close> of \<open>bot.config\<close>, which is not among the sources.
\<close>

record env =
  b64decode :: "string \<Rightarrow> exn + bytes"
  b64encode :: "bytes \<Rightarrow> string"
  token_hex :: "nat \<Rightarrow> string"
  post :: "http_request \<Rightarrow> exn + http_response"
  CWD_PW_API_KEY :: string

text \<open>
  An adapter's run is the list of requests it posted and how it ended. The handler
  \<open>except Exception as e: logger.error(...); return None\<close> that closes each of the three
  entry points turns a raise into the return value \<open>None\<close> and leaves the rest.
\<close>

definition except_Exception ::
  "http_request list \<times> (exn + 'a option) \<Rightarrow> http_request list \<times> (exn + 'a option)" where
  "except_Exception r = (case r of (requests, Inl e) \<Rightarrow> (requests, Inr None) | _ \<Rightarrow> r)"

section \<open>\<open>bot/cwd_uploader.py\<close>: the image upload adapter\<close>

text \<open>
  \<open>upload_base64_image_to_cwd\<close>, lines 28 to 49: the prefix check, the split at the
  first comma (unpacking into two names raises \<open>ValueError\<close> when there is no comma),
  the MIME type (the header up to its first \<open>;\<close>, with every \<open>data:\<close> in it replaced
  by nothing), the check that it starts with \<open>image/\<close>, its split at \<open>/\<close> into
  exactly two parts, and \<open>jpeg\<close> renamed \<open>jpg\<close>. \<open>Inr None\<close> is the early
  \<open>return None\<close>; \<open>Inr (Some (mime_match, extension, pure_base64))\<close> goes on.
\<close>

definition parse_data_uri :: "string \<Rightarrow> exn + (string \<times> string \<times> string) option" where
  "parse_data_uri base64_data =
     (if \<not> startswith base64_data ''data:image/'' then Inr None
      else case str_split_max1 (CHR '','') base64_data of
        [header, pure_base64] \<Rightarrow>
          (case str_split (CHR '';'') header of
             [] \<Rightarrow> Inl IndexError
           | h0 # _ \<Rightarrow>
               let mime_match = str_replace ''data:'' '''' h0 in
               if \<not> startswith mime_match ''image/'' then Inr None
               else (case str_split (CHR ''/'') mime_match of
                  [_, extension] \<Rightarrow>
                    Inr (Some (mime_match,
                               (if extension = ''jpeg'' then ''jpg'' else extension),
                               pure_base64))
                | _ \<Rightarrow> Inr None))
      | _ \<Rightarrow> Inl ValueError)"

text \<open>
  Lines 28 to 61: the parse above, the list of supported formats, and the decoding of the
  payload inside its own \<open>try\<close> (a raise there is a \<open>return None\<close>).
\<close>

definition image_validation :: "env \<Rightarrow> string \<Rightarrow> exn + (string \<times> string \<times> bytes) option" where
  "image_validation env base64_data =
     (case parse_data_uri base64_data of
        Inl e \<Rightarrow> Inl e
      | Inr None \<Rightarrow> Inr None
      | Inr (Some (mime_match, extension, pure_base64)) \<Rightarrow>
          if extension \<notin> set [''png'', ''jpg'', ''webp''] then Inr None
          else (case b64decode env pure_base64 of
                  Inl e \<Rightarrow> Inr None
                | Inr binary_data \<Rightarrow> Inr (Some (mime_match, extension, binary_data))))"

text \<open>\<open>model or ""\<close> and \<open>prompt or ""\<close>: the empty string for \<open>None\<close> and for \<open>""\<close>.\<close>

definition or_empty :: "string option \<Rightarrow> string" where
  "or_empty v = (case v of None \<Rightarrow> '''' | Some s \<Rightarrow> if s \<noteq> [] then s else '''')"

text \<open>Lines 66 to 127: the parts of the multipart body and their concatenation.\<close>

definition multipart_body ::
  "string \<Rightarrow> string \<Rightarrow> string \<Rightarrow> bytes \<Rightarrow> string \<Rightarrow> string option \<Rightarrow> string option \<Rightarrow> bytes" where
  \<open>multipart_body boundary extension mime_match binary_data api_key model prompt =
     (let image_header = utf8_encode
            (''--'' @ boundary @ CRLF
             @ ''Content-Disposition: form-data; name="image"; filename="upload.'' @ extension @ ''"'' @ CRLF
             @ ''Content-Type: '' @ mime_match @ CRLF
             @ CRLF);
          api_key_field = utf8_encode
            (''--'' @ boundary @ CRLF
             @ ''Content-Disposition: form-data; name="api_key"'' @ CRLF
             @ CRLF
             @ api_key);
          ai_generated_field = utf8_encode
            (''--'' @ boundary @ CRLF
             @ ''Content-Disposition: form-data; name="ai_generated"'' @ CRLF
             @ CRLF
             @ ''true'');
          model_field = utf8_encode
            (''--'' @ boundary @ CRLF
             @ ''Content-Disposition: form-data; name="model"'' @ CRLF
             @ CRLF
             @ or_empty model);
          prompt_field = utf8_encode
            (''--'' @ boundary @ CRLF
             @ ''Content-Disposition: form-data; name="prompt"'' @ CRLF
             @ CRLF
             @ or_empty prompt);
          footer = utf8_encode (''--'' @ boundary @ ''--'' @ CRLF);
          body_parts = [image_header, binary_data, CRLF,
                        api_key_field, CRLF,
                        ai_generated_field, CRLF,
                        model_field, CRLF,
                        prompt_field, CRLF,
                        footer]
      in concat body_parts)\<close>

text \<open>
  Lines 63 to 140: the random boundary, the body, the \<open>Content-Type\<close> header and the
  arguments of \<open>session.post\<close>.
\<close>

definition image_upload_request ::
  "env \<Rightarrow> string \<Rightarrow> string \<Rightarrow> bytes \<Rightarrow> string \<Rightarrow> string option \<Rightarrow> string option \<Rightarrow> http_request" where
  "image_upload_request env mime_match extension binary_data api_key model prompt =
     (let boundary = ''----WebKitFormBoundary'' @ token_hex env 16;
          body = multipart_body boundary extension mime_match binary_data api_key model prompt;
          headers' = [(''Content-Type'', ''multipart/form-data; boundary='' @ boundary)]
      in \<lparr>url = ''https://cwd.pw/api/upload-image'', req_headers = headers',
          payload = Data body, timeout_total = 30\<rparr>)"

text \<open>Lines 143 to 160: what the adapter makes of the response.\<close>

definition image_upload_result :: "http_response \<Rightarrow> exn + json option" where
  "image_upload_result response =
     (if \<not> ok response then
        (case text_body response of Inl e \<Rightarrow> Inl e | Inr error_text \<Rightarrow> Inr None)
      else case json_body response of
        Inl e \<Rightarrow> Inl e
      | Inr result \<Rightarrow>
          (case dict_get result ''success'' of
             Inl e \<Rightarrow> Inl e
           | Inr success \<Rightarrow>
               if \<not> truthy success then Inr None
               else (case dict_get result ''imageUrl'' of
                       Inl e \<Rightarrow> Inl e
                     | Inr image_url \<Rightarrow>
                         if truthy image_url then Inr (Some image_url) else Inr None)))"

text \<open>The body of the \<open>try\<close> of \<open>upload_base64_image_to_cwd\<close> (lines 27 to 160).\<close>

definition upload_base64_image_to_cwd_try ::
  "env \<Rightarrow> string \<Rightarrow> string \<Rightarrow> string option \<Rightarrow> string option
     \<Rightarrow> http_request list \<times> (exn + json option)" where
  "upload_base64_image_to_cwd_try env base64_data api_key model prompt =
     (case image_validation env base64_data of
        Inl e \<Rightarrow> ([], Inl e)
      | Inr None \<Rightarrow> ([], Inr None)
      | Inr (Some (mime_match, extension, binary_data)) \<Rightarrow>
          let request = image_upload_request env mime_match extension binary_data
                          api_key model prompt
          in (case post env request of
                Inl e \<Rightarrow> ([request], Inl e)
              | Inr response \<Rightarrow> ([request], image_upload_result response)))"

text \<open>\<open>upload_base64_image_to_cwd\<close> (lines 14 to 164): the \<open>try\<close> and its handler.\<close>

definition upload_base64_image_to_cwd ::
  "env \<Rightarrow> string \<Rightarrow> string \<Rightarrow> string option \<Rightarrow> string option
     \<Rightarrow> http_request list \<times> (exn + json option)" where
  "upload_base64_image_to_cwd env base64_data api_key model prompt =
     except_Exception (upload_base64_image_to_cwd_try env base64_data api_key model prompt)"

text \<open>\<open>upload_image_bytes_to_cwd\<close> (lines 167 to 190).\<close>

definition upload_image_bytes_to_cwd ::
  "env \<Rightarrow> bytes \<Rightarrow> string \<Rightarrow> string \<Rightarrow> string option \<Rightarrow> string option
     \<Rightarrow> http_request list \<times> (exn + json option)" where
  "upload_image_bytes_to_cwd env image_bytes api_key mime_type model prompt =
     except_Exception
       (let base64_encoded = b64encode env image_bytes;
            base64_data = ''data:'' @ mime_type @ '';base64,'' @ base64_encoded
        in upload_base64_image_to_cwd env base64_data api_key model prompt)"

text \<open>
  The byte-oriented entry point as the specification words it: the bytes and the MIME
  type are put into the data-URI form, and the data-URI entry point does the rest.
\<close>

definition upload_image_bytes_spec ::
  "env \<Rightarrow> bytes \<Rightarrow> string \<Rightarrow> string \<Rightarrow> string option \<Rightarrow> string option
     \<Rightarrow> http_request list \<times> (exn + json option)" where
  "upload_image_bytes_spec env image_bytes api_key mime_type model prompt =
     upload_base64_image_to_cwd env
       (''data:'' @ mime_type @ '';base64,'' @ b64encode env image_bytes) api_key model prompt"


section \<open>\<open>bot/cwd_uploader.py\<close>: the paste upload adapter\<close>

text \<open>\<open>upload_to_cwd_pw_paste\<close>, lines 208 to 232: the JSON payload and the request.\<close>

definition paste_request :: "env \<Rightarrow> string \<Rightarrow> string \<Rightarrow> string \<Rightarrow> string \<Rightarrow> string \<Rightarrow> http_request" where
  "paste_request env title content user_prompt debug_info raw_response =
     (let metadata = JObj [(''source'', JStr ''https://github.com/frankslin/TelegramGroupHelperBot'')];
          payload' = JObj [(''title'', JStr title),
                           (''content'', JStr content),
                           (''userPrompt'', JStr user_prompt),
                           (''debugInfo'', JStr debug_info),
                           (''rawResponse'', JStr raw_response),
                           (''metadata'', metadata)];
          headers' = [(''X-API-Key'', CWD_PW_API_KEY env),
                      (''Content-Type'', ''application/json'')]
      in \<lparr>url = ''https://cwd.pw/api/paste'', req_headers = headers',
          payload = Json payload', timeout_total = 10\<rparr>)"

text \<open>
  Lines 234 to 242. With status 301 or 302 the \<open>Location\<close> header is returned when
  \<open>if location:\<close> holds, that is when it is there and not empty; otherwise control
  leaves the \<open>if\<close> and the function ends without a \<open>return\<close>, which is \<open>None\<close>.
\<close>

definition paste_result :: "http_response \<Rightarrow> exn + string option" where
  "paste_result response =
     (if status response \<in> set [301, 302] then
        (case headers response ''Location'' of
           None \<Rightarrow> Inr None
         | Some location \<Rightarrow> if location \<noteq> [] then Inr (Some location) else Inr None)
      else (case text_body response of Inl e \<Rightarrow> Inl e | Inr error_text \<Rightarrow> Inr None))"

text \<open>The body of the \<open>try\<close> of \<open>upload_to_cwd_pw_paste\<close> (lines 207 to 242).\<close>

definition upload_to_cwd_pw_paste_try ::
  "env \<Rightarrow> string \<Rightarrow> string \<Rightarrow> string \<Rightarrow> string \<Rightarrow> string
     \<Rightarrow> http_request list \<times> (exn + string option)" where
  "upload_to_cwd_pw_paste_try env title content user_prompt debug_info raw_response =
     (let request = paste_request env title content user_prompt debug_info raw_response
      in case post env request of
           Inl e \<Rightarrow> ([request], Inl e)
         | Inr response \<Rightarrow> ([request], paste_result response))"

text \<open>\<open>upload_to_cwd_pw_paste\<close> (lines 193 to 246): the \<open>try\<close> and its handler.\<close>

definition upload_to_cwd_pw_paste ::
  "env \<Rightarrow> string \<Rightarrow> string \<Rightarrow> string \<Rightarrow> string \<Rightarrow> string
     \<Rightarrow> http_request list \<times> (exn + string option)" where
  "upload_to_cwd_pw_paste env title content user_prompt debug_info raw_response =
     except_Exception
       (upload_to_cwd_pw_paste_try env title content user_prompt debug_info raw_response)"

section \<open>The upload decision of \<open>send_response\<close>\<close>

text \<open>
  \<open>tests/unit/test_send_response_logic.py\<close>, \<open>test_line_counting\<close>:
  \<open>line_count = content.count('\n') + 1\<close>, the line count \<open>send_response\<close> takes of a
  response.
\<close>

definition line_count :: "string \<Rightarrow> int" where
  "line_count content = int (count_list content (CHR 0x0A)) + 1"

text \<open>
  \<open>tests/unit/test_send_response_logic.py\<close>, \<open>upload_service_logic\<close>: the decision
  of \<open>send_response\<close> as a function of its own. It returns \<open>"cwd.pw"\<close> (the paste
  adapter), \<open>"telegra.ph"\<close> (the wiki-publishing collaborator) or \<open>"direct"\<close>
  (no upload). Python's integers are unbounded: \<open>int\<close>.
\<close>

definition upload_service_logic :: "int \<Rightarrow> int \<Rightarrow> string \<Rightarrow> int \<Rightarrow> string" where
  "upload_service_logic response_length line_count' upload_service telegram_max_length =
     (if line_count' > 22 \<or> response_length > telegram_max_length then
        (if lower upload_service = ''cwd.pw'' then ''cwd.pw'' else ''telegra.ph'')
      else ''direct'')"

section \<open>The delivery cascade of \<open>send_response\<close>\<close>

text \<open>
  Modelled from the spec: \<open>send_response\<close> of \<open>bot/handlers.py\<close> is not among the
  sources (only its tests are), so the cascade below follows section 4.3 of the
  specification. This is Python's slice \<open>s[:k]\<close>, which the truncation uses: the first
  \<open>k\<close> characters, and for a negative \<open>k\<close> all but the last \<open>-k\<close>.
\<close>

definition py_slice_to :: "int \<Rightarrow> string \<Rightarrow> string" where
  "py_slice_to k s = (if 0 \<le> k then take (nat k) s else take (length s - nat (- k)) s)"

text \<open>
  Modelled from the spec: the literal suffix of a truncated response,
  \<open>"...\n\n(Response was truncated due to length)"\<close> (\<open>send_response\<close> is missing).
\<close>

definition truncation_suffix :: string where
  "truncation_suffix = ''...'' @ [CHR 0x0A, CHR 0x0A] @ ''(Response was truncated due to length)''"

text \<open>
  Modelled from the spec: the response truncated to \<open>max_length - 44\<close> characters plus
  the suffix (\<open>send_response\<close> is missing).
\<close>

definition truncated_response :: "int \<Rightarrow> string \<Rightarrow> string" where
  "truncated_response max_length response =
     py_slice_to (max_length - 44) response @ truncation_suffix"

text \<open>
  Modelled from the spec: an edit's error is classified as "message too long" when its
  text contains the marker \<open>Message_too_long\<close> (\<open>send_response\<close> is missing).
\<close>

definition is_too_long :: "string \<Rightarrow> bool" where
  "is_too_long err = sublist ''Message_too_long'' err"

text \<open>
  Modelled from the spec: the data of one dispatch (\<open>send_response\<close> is missing). An
  edit of the message handle carries its text and the parse mode, if any; an adapter call
  its title and content. The outcomes are those of section 3 of the specification, and
  \<open>NotDelivered\<close> for a dispatch whose last edit raised, which the specification leaves
  open.
\<close>

datatype edit_call = Edit string "string option"

datatype adapter_call = PasteAdapter string string | WikiPublish string string

datatype delivery_outcome = SentDirectly | SentAsLink string | SentPlainText | SentTruncated
  | SentErrorMessage | NotDelivered string

text \<open>
  Modelled from the spec: the configuration a dispatch reads, \<open>UPLOAD_SERVICE\<close> and
  \<open>TELEGRAM_MAX_LENGTH\<close> (\<open>bot/config.py\<close> and \<open>send_response\<close> are missing).
\<close>

record configuration =
  UPLOAD_SERVICE :: string
  TELEGRAM_MAX_LENGTH :: int

text \<open>
  Modelled from the spec: the collaborators of a dispatch (\<open>send_response\<close> is missing).
  Each adapter maps a title and a content to a URL or none. \<open>edit co n call\<close> is how the
  \<open>n\<close>-th edit of the dispatch ends: \<open>None\<close> when it succeeds, the error's text when
  it raises.
\<close>

record collaborators =
  paste_adapter :: "string \<Rightarrow> string \<Rightarrow> string option"
  wiki_publish :: "string \<Rightarrow> string \<Rightarrow> string option"
  edit :: "nat \<Rightarrow> edit_call \<Rightarrow> string option"

text \<open>
  Modelled from the spec: what one dispatch did, the adapter calls and the edits in
  their order, and its outcome (\<open>send_response\<close> is missing).
\<close>

record dispatch =
  adapter_calls :: "adapter_call list"
  edits :: "edit_call list"
  outcome :: delivery_outcome

text \<open>
  Modelled from the spec: the adapter of the upload branch, the paste adapter when the
  lower-cased service name is \<open>cwd.pw\<close> and the wiki-publishing collaborator otherwise
  (\<open>send_response\<close> is missing).
\<close>

definition select_adapter :: "configuration \<Rightarrow> string \<Rightarrow> string \<Rightarrow> adapter_call" where
  "select_adapter cfg title response =
     (if lower (UPLOAD_SERVICE cfg) = ''cwd.pw'' then PasteAdapter title response
      else WikiPublish title response)"

text \<open>Modelled from the spec: the call of the chosen adapter (\<open>send_response\<close> is missing).\<close>

fun run_adapter :: "collaborators \<Rightarrow> adapter_call \<Rightarrow> string option" where
  "run_adapter co (PasteAdapter title content) = paste_adapter co title content"
| "run_adapter co (WikiPublish title content) = wiki_publish co title content"

text \<open>
  Modelled from the spec: the direct branch (\<open>send_response\<close> is missing). The response
  is sent with the caller's parse mode; if that edit fails, once more without one; if that
  fails too, the fixed error message.
\<close>

definition send_direct :: "collaborators \<Rightarrow> string \<Rightarrow> string option \<Rightarrow> dispatch" where
  "send_direct co response parse_mode =
     (let formatted = Edit response parse_mode;
          plain = Edit response None;
          apology = Edit ''Error: Failed to format response. Please try again.'' None
      in case edit co 0 formatted of
           None \<Rightarrow> \<lparr>adapter_calls = [], edits = [formatted], outcome = SentDirectly\<rparr>
         | Some err1 \<Rightarrow>
             (case edit co 1 plain of
                None \<Rightarrow> \<lparr>adapter_calls = [], edits = [formatted, plain], outcome = SentPlainText\<rparr>
              | Some err2 \<Rightarrow>
                  \<lparr>adapter_calls = [], edits = [formatted, plain, apology],
                   outcome = (case edit co 2 apology of
                                None \<Rightarrow> SentErrorMessage
                              | Some err3 \<Rightarrow> NotDelivered err3)\<rparr>))"

text \<open>
  Modelled from the spec: the upload branch (\<open>send_response\<close> is missing). With a URL the
  link message is the one edit. Without one the response is sent as plain text; if that
  edit fails as "message too long", the truncated response is the last edit; after any
  other failure nothing more is tried.
\<close>

definition send_upload :: "configuration \<Rightarrow> collaborators \<Rightarrow> string \<Rightarrow> string \<Rightarrow> dispatch" where
  "send_upload cfg co response title =
     (let call = select_adapter cfg title response
      in case run_adapter co call of
           Some link_url \<Rightarrow>
             (let link = Edit (''I have too much to say. Please view it here: '' @ link_url) None
              in \<lparr>adapter_calls = [call], edits = [link],
                  outcome = (case edit co 0 link of
                               None \<Rightarrow> SentAsLink link_url
                             | Some err \<Rightarrow> NotDelivered err)\<rparr>)
         | None \<Rightarrow>
             (let plain = Edit response None
              in case edit co 0 plain of
                   None \<Rightarrow> \<lparr>adapter_calls = [call], edits = [plain], outcome = SentPlainText\<rparr>
                 | Some err \<Rightarrow>
                     if is_too_long err then
                       (let truncated =
                              Edit (truncated_response (TELEGRAM_MAX_LENGTH cfg) response) None
                        in \<lparr>adapter_calls = [call], edits = [plain, truncated],
                            outcome = (case edit co 1 truncated of
                                         None \<Rightarrow> SentTruncated
                                       | Some err' \<Rightarrow> NotDelivered err')\<rparr>)
                     else \<lparr>adapter_calls = [call], edits = [plain], outcome = NotDelivered err\<rparr>))"

text \<open>
  Modelled from the spec: the decision of \<open>send_response\<close>, which is missing: the
  upload branch when the line count is above 22 or the length above the configured
  maximum, the direct branch otherwise.
\<close>

definition send_response ::
  "configuration \<Rightarrow> collaborators \<Rightarrow> string \<Rightarrow> string \<Rightarrow> string option \<Rightarrow> dispatch" where
  "send_response cfg co response title parse_mode =
     (if line_count response > 22 \<or> int (length response) > TELEGRAM_MAX_LENGTH cfg
      then send_upload cfg co response title
      else send_direct co response parse_mode)"

section \<open>Concrete inputs\<close>

text \<open>
  Instances of the parameters, for running the adapters on concrete inputs: the
  base64 alphabet of RFC 4648, an encoder, and a decoder that accepts canonical input
  only. (Python's decoder also skips characters outside the alphabet; the theorems hold
  for every decoder.)
\<close>

definition b64_alphabet :: string where
  "b64_alphabet = ''ABCDEFGHIJKLMNOPQRSTUVWXYZabcdefghijklmnopqrstuvwxyz0123456789+/''"

definition b64_digit :: "nat \<Rightarrow> char" where
  "b64_digit n = b64_alphabet ! (n mod 64)"

definition b64_value :: "char \<Rightarrow> nat option" where
  "b64_value c = map_of (zip b64_alphabet [0..<64]) c"

fun b64encode_std :: "bytes \<Rightarrow> string" where
  "b64encode_std [] = []"
| "b64encode_std [a] =
     (let x = (of_char a :: nat)
      in [b64_digit (x div 4), b64_digit ((x mod 4) * 16), CHR ''='', CHR ''=''])"
| "b64encode_std [a, b] =
     (let x = (of_char a :: nat); y = (of_char b :: nat)
      in [b64_digit (x div 4), b64_digit ((x mod 4) * 16 + y div 16),
          b64_digit ((y mod 16) * 4), CHR ''=''])"
| "b64encode_std (a # b # c # rest) =
     (let x = (of_char a :: nat); y = (of_char b :: nat); z = (of_char c :: nat)
      in [b64_digit (x div 4), b64_digit ((x mod 4) * 16 + y div 16),
          b64_digit ((y mod 16) * 4 + z div 64), b64_digit (z mod 64)]
         @ b64encode_std rest)"

fun b64decode_std :: "string \<Rightarrow> exn + bytes" where
  "b64decode_std [] = Inr []"
| "b64decode_std (a # b # c # d # rest) =
     (case (b64_value a, b64_value b) of
        (Some p, Some q) \<Rightarrow>
          if c = CHR ''='' \<and> d = CHR ''='' \<and> rest = [] then Inr [char_of (p * 4 + q div 16)]
          else (case b64_value c of
             None \<Rightarrow> Inl Binascii_Error
           | Some r \<Rightarrow>
               if d = CHR ''='' \<and> rest = []
               then Inr [char_of (p * 4 + q div 16), char_of ((q mod 16) * 16 + r div 4)]
               else (case b64_value d of
                  None \<Rightarrow> Inl Binascii_Error
                | Some s \<Rightarrow>
                    (case b64decode_std rest of
                       Inl e \<Rightarrow> Inl e
                     | Inr bs \<Rightarrow>
                         Inr ([char_of (p * 4 + q div 16),
                               char_of ((q mod 16) * 16 + r div 4),
                               char_of ((r mod 4) * 64 + s)] @ bs))))
      | _ \<Rightarrow> Inl Binascii_Error)"
| "b64decode_std _ = Inl Binascii_Error"

text \<open>The first eight bytes of a PNG file, and their data URI.\<close>

definition png_magic :: bytes where
  "png_magic = [CHR 0x89, CHR ''P'', CHR ''N'', CHR ''G'', CHR 0x0D, CHR 0x0A, CHR 0x1A, CHR 0x0A]"

definition png_data_uri :: string where
  "png_data_uri = ''data:image/png;base64,iVBORw0KGgo=''"

text \<open>An environment whose network behaves as \<open>post'\<close> says.\<close>

definition env_of :: "(http_request \<Rightarrow> exn + http_response) \<Rightarrow> env" where
  "env_of post' =
     \<lparr>b64decode = b64decode_std, b64encode = b64encode_std,
      token_hex = (\<lambda>n. replicate (2 * n) (CHR ''a'')),
      post = post', CWD_PW_API_KEY = ''test_api_key_123''\<rparr>"

text \<open>Responses of the paste service and of the image service, as the unit tests mock them.\<close>

definition resp_redirect :: http_response where
  "resp_redirect =
     \<lparr>status = 301, ok = True, headers = [''Location'' \<mapsto> ''https://cwd.pw/p/test123''],
      text_body = Inr '''', json_body = Inl ContentTypeError\<rparr>"

definition resp_empty_location :: http_response where
  "resp_empty_location =
     \<lparr>status = 301, ok = True, headers = [''Location'' \<mapsto> ''''],
      text_body = Inr '''', json_body = Inl ContentTypeError\<rparr>"

definition resp_bad_request :: http_response where
  "resp_bad_request =
     \<lparr>status = 400, ok = False, headers = Map.empty,
      text_body = Inr ''Bad Request'', json_body = Inl ContentTypeError\<rparr>"

definition resp_image_ok :: http_response where
  "resp_image_ok =
     \<lparr>status = 200, ok = True, headers = Map.empty, text_body = Inr '''',
      json_body = Inr (JObj [(''success'', JBool True),
                             (''imageUrl'', JStr ''https://cwd.pw/i/test123.png'')])\<rparr>"

definition resp_image_numeric :: http_response where
  "resp_image_numeric =
     \<lparr>status = 200, ok = True, headers = Map.empty, text_body = Inr '''',
      json_body = Inr (JObj [(''success'', JBool True), (''imageUrl'', JNum 123)])\<rparr>"

definition env_redirect :: env where
  "env_redirect = env_of (\<lambda>request. Inr resp_redirect)"

definition env_empty_location :: env where
  "env_empty_location = env_of (\<lambda>request. Inr resp_empty_location)"

definition env_bad_request :: env where
  "env_bad_request = env_of (\<lambda>request. Inr resp_bad_request)"

definition env_timeout :: env where
  "env_timeout = env_of (\<lambda>request. Inl TimeoutError)"

definition env_image_ok :: env where
  "env_image_ok = env_of (\<lambda>request. Inr resp_image_ok)"

definition env_image_numeric :: env where
  "env_image_numeric = env_of (\<lambda>request. Inr resp_image_numeric)"

text \<open>
  Two responses of the line threshold: 22 lines (21 newline characters, 109 characters),
  and \<open>"line\n" * 22\<close> of \<open>test_line_threshold_boundary_conditions\<close> (22 newline
  characters, so 23 lines as \<open>test_line_counting\<close> counts them).
\<close>

definition lines_22 :: string where
  "lines_22 = concat (replicate 21 (''line'' @ [CHR 0x0A])) @ ''line''"

definition lines_23 :: string where
  "lines_23 = concat (replicate 22 (''line'' @ [CHR 0x0A]))"

text \<open>
  A data URI whose MIME subtype is \<open>data:png\<close>, with the payload of \<open>png_data_uri\<close>.
\<close>

definition nested_data_uri :: string where
  "nested_data_uri = ''data:image/data:png;base64,iVBORw0KGgo=''"

text \<open>
  A response of 4500 newline characters, two configurations, and collaborators whose
  adapters return no URL and whose first edit fails with the marker.
\<close>

definition long_lines :: string where
  "long_lines = replicate 4500 (CHR 0x0A)"

definition cfg_5000 :: configuration where
  "cfg_5000 = \<lparr>UPLOAD_SERVICE = ''cwd.pw'', TELEGRAM_MAX_LENGTH = 5000\<rparr>"

definition cfg_default :: configuration where
  "cfg_default = \<lparr>UPLOAD_SERVICE = ''cwd.pw'', TELEGRAM_MAX_LENGTH = 4000\<rparr>"

definition co_too_long :: collaborators where
  "co_too_long =
     \<lparr>paste_adapter = (\<lambda>title content. None), wiki_publish = (\<lambda>title content. None),
      edit = (\<lambda>n call. if n = 0 then Some ''Message_too_long'' else None)\<rparr>"

section \<open>Properties of the upload decision\<close>

lemma length_lower: "length (lower s) = length s"
  by (simp add: lower_def)

lemma count_list_replicate_same: "count_list (replicate n c) c = n"
  by (induction n) simp_all

lemma lower_cwd_pw_length: "lower s = ''cwd.pw'' \<Longrightarrow> length s = 6"
  using length_lower [of s] by simp

lemma of_char_less_256: "(of_char c :: nat) < 256"
  by (cases c) (simp add: of_char_def horner_sum_eq_sum)

lemma char_as_nat: "\<exists>n::nat. c = char_of n \<and> n < 256"
  using char_of_char [of c] of_char_less_256 [of c] by metis

lemma py_lower_char_char_of:
  "(n::nat) < 256 \<Longrightarrow> py_lower_char (char_of n)
     = (if (65 \<le> n \<and> n \<le> 90) \<or> (192 \<le> n \<and> n \<le> 214) \<or> (216 \<le> n \<and> n \<le> 222)
        then char_of (n + 32) else char_of n)"
  by (simp add: py_lower_char_def of_char_of)

lemma lower_char_c: "(py_lower_char x = char_of (99::nat)) = (x = char_of (99::nat) \<or> x = char_of (67::nat))"
proof -
  obtain n :: nat where n: "x = char_of n" "n < 256"
    using char_as_nat by blast
  show ?thesis
    unfolding n(1) py_lower_char_char_of [OF n(2)] using n(2)
    by (auto simp: char_of_quasi_inj)
qed

lemma lower_char_w: "(py_lower_char x = char_of (119::nat)) = (x = char_of (119::nat) \<or> x = char_of (87::nat))"
proof -
  obtain n :: nat where n: "x = char_of n" "n < 256"
    using char_as_nat by blast
  show ?thesis
    unfolding n(1) py_lower_char_char_of [OF n(2)] using n(2)
    by (auto simp: char_of_quasi_inj)
qed

lemma lower_char_d: "(py_lower_char x = char_of (100::nat)) = (x = char_of (100::nat) \<or> x = char_of (68::nat))"
proof -
  obtain n :: nat where n: "x = char_of n" "n < 256"
    using char_as_nat by blast
  show ?thesis
    unfolding n(1) py_lower_char_char_of [OF n(2)] using n(2)
    by (auto simp: char_of_quasi_inj)
qed

lemma lower_char_p: "(py_lower_char x = char_of (112::nat)) = (x = char_of (112::nat) \<or> x = char_of (80::nat))"
proof -
  obtain n :: nat where n: "x = char_of n" "n < 256"
    using char_as_nat by blast
  show ?thesis
    unfolding n(1) py_lower_char_char_of [OF n(2)] using n(2)
    by (auto simp: char_of_quasi_inj)
qed

lemma lower_char_dot: "(py_lower_char x = char_of (46::nat)) = (x = char_of (46::nat))"
proof -
  obtain n :: nat where n: "x = char_of n" "n < 256"
    using char_as_nat by blast
  show ?thesis
    unfolding n(1) py_lower_char_char_of [OF n(2)] using n(2)
    by (auto simp: char_of_quasi_inj)
qed

lemma cwd_pw_chars:
  "CHR ''c'' = char_of (99::nat)" "CHR ''C'' = char_of (67::nat)"
  "CHR ''w'' = char_of (119::nat)" "CHR ''W'' = char_of (87::nat)"
  "CHR ''d'' = char_of (100::nat)" "CHR ''D'' = char_of (68::nat)"
  "CHR ''p'' = char_of (112::nat)" "CHR ''P'' = char_of (80::nat)"
  "CHR ''.'' = char_of (46::nat)"
  by code_simp+

lemma py_lower_char_cwd_pw:
  "(py_lower_char x = CHR ''c'') = (x = CHR ''c'' \<or> x = CHR ''C'')"
  "(py_lower_char x = CHR ''w'') = (x = CHR ''w'' \<or> x = CHR ''W'')"
  "(py_lower_char x = CHR ''d'') = (x = CHR ''d'' \<or> x = CHR ''D'')"
  "(py_lower_char x = CHR ''p'') = (x = CHR ''p'' \<or> x = CHR ''P'')"
  "(py_lower_char x = CHR ''.'') = (x = CHR ''.'')"
  unfolding cwd_pw_chars
  by (rule lower_char_c lower_char_w lower_char_d lower_char_p lower_char_dot)+

lemma lower_eq_cwd_pw:
  "(lower s = ''cwd.pw'')
   = (\<exists>a b c d e. s = [a, b, c, CHR ''.'', d, e]
        \<and> a \<in> {CHR ''c'', CHR ''C''} \<and> b \<in> {CHR ''w'', CHR ''W''}
        \<and> c \<in> {CHR ''d'', CHR ''D''} \<and> d \<in> {CHR ''p'', CHR ''P''}
        \<and> e \<in> {CHR ''w'', CHR ''W''})"
proof
  assume "lower s = ''cwd.pw''"
  then obtain a b c f d e where s: "s = [a, b, c, f, d, e]"
    and l: "py_lower_char a = CHR ''c''" "py_lower_char b = CHR ''w''"
      "py_lower_char c = CHR ''d''" "py_lower_char f = CHR ''.''"
      "py_lower_char d = CHR ''p''" "py_lower_char e = CHR ''w''"
    unfolding lower_def by (auto simp: map_eq_Cons_conv)
  from l show "\<exists>a b c d e. s = [a, b, c, CHR ''.'', d, e]
        \<and> a \<in> {CHR ''c'', CHR ''C''} \<and> b \<in> {CHR ''w'', CHR ''W''}
        \<and> c \<in> {CHR ''d'', CHR ''D''} \<and> d \<in> {CHR ''p'', CHR ''P''}
        \<and> e \<in> {CHR ''w'', CHR ''W''}"
    unfolding s py_lower_char_cwd_pw by blast
next
  assume "\<exists>a b c d e. s = [a, b, c, CHR ''.'', d, e]
        \<and> a \<in> {CHR ''c'', CHR ''C''} \<and> b \<in> {CHR ''w'', CHR ''W''}
        \<and> c \<in> {CHR ''d'', CHR ''D''} \<and> d \<in> {CHR ''p'', CHR ''P''}
        \<and> e \<in> {CHR ''w'', CHR ''W''}"
  then obtain a b c d e where s: "s = [a, b, c, CHR ''.'', d, e]"
    and l: "a = CHR ''c'' \<or> a = CHR ''C''" "b = CHR ''w'' \<or> b = CHR ''W''"
      "c = CHR ''d'' \<or> c = CHR ''D''" "d = CHR ''p'' \<or> d = CHR ''P''"
      "e = CHR ''w'' \<or> e = CHR ''W''"
    by auto
  from l have "py_lower_char a = CHR ''c''" "py_lower_char b = CHR ''w''"
      "py_lower_char c = CHR ''d''" "py_lower_char (CHR ''.'') = CHR ''.''"
      "py_lower_char d = CHR ''p''" "py_lower_char e = CHR ''w''"
    unfolding py_lower_char_cwd_pw by simp_all
  then show "lower s = ''cwd.pw''"
    unfolding s lower_def by simp
qed

lemma newline_count_card:
  "count_list s c = card {i. i < length s \<and> s ! i = c}"
proof -
  have "{i. i < length s \<and> c = s ! i} = {i. i < length s \<and> s ! i = c}"
    by auto
  then show ?thesis
    by (simp add: count_list_eq_length_filter length_filter_conv_card)
qed

text \<open>
  C1. The line count of a response is the number of its positions that hold a newline
  character, plus one. With that count and with the length as the number of characters,
  the decision is an upload exactly when the number of newline positions plus one is above
  22 or the length is above the configured maximum. At a length equal to the maximum with
  22 lines (21 newline characters) the response is sent directly (no adapter is named);
  one character more, or a 23rd line (22 newline characters), gives an upload.
\<close>

theorem C1_upload_branch_iff:
  "line_count response = int (card {i. i < length response \<and> response ! i = CHR 0x0A}) + 1
   \<and> ((upload_service_logic (int (length response)) (line_count response)
          upload_service telegram_max_length \<noteq> ''direct'')
        = (int (card {i. i < length response \<and> response ! i = CHR 0x0A}) + 1 > 22
           \<or> int (length response) > telegram_max_length))
   \<and> (int (length response) = telegram_max_length
        \<and> card {i. i < length response \<and> response ! i = CHR 0x0A} + 1 = 22
      \<longrightarrow> upload_service_logic (int (length response)) (line_count response)
            upload_service telegram_max_length = ''direct'')
   \<and> (int (length response) = telegram_max_length + 1
        \<or> card {i. i < length response \<and> response ! i = CHR 0x0A} + 1 = 23
      \<longrightarrow> upload_service_logic (int (length response)) (line_count response)
            upload_service telegram_max_length \<in> {''cwd.pw'', ''telegra.ph''})"
proof -
  have l: "line_count response
           = int (card {i. i < length response \<and> response ! i = CHR 0x0A}) + 1"
    by (simp add: line_count_def newline_count_card)
  show ?thesis
    unfolding l by (auto simp: upload_service_logic_def)
qed

theorem C1_upload_branch_iff_witness:
  "line_count lines_22 = 22 \<and> int (length lines_22) = 109
   \<and> upload_service_logic (int (length lines_22)) (line_count lines_22) ''telegra.ph'' 109
       = ''direct''
   \<and> upload_service_logic (int (length lines_22)) (line_count lines_22) ''telegra.ph'' 108
       \<in> {''cwd.pw'', ''telegra.ph''}
   \<and> line_count lines_23 = 23
   \<and> upload_service_logic (int (length lines_23)) (line_count lines_23) ''telegra.ph'' 4000
       \<in> {''cwd.pw'', ''telegra.ph''}"
proof -
  have a: "card {i. i < length lines_22 \<and> lines_22 ! i = CHR 0x0A} = 21"
    unfolding newline_count_card [symmetric] by code_simp
  have b: "card {i. i < length lines_23 \<and> lines_23 ! i = CHR 0x0A} = 22"
    unfolding newline_count_card [symmetric] by code_simp
  have c: "int (length lines_22) = 109"
    by code_simp
  have l22: "line_count lines_22 = 22"
    unfolding C1_upload_branch_iff [of lines_22 "''telegra.ph''" 109, THEN conjunct1] a
    by simp
  have l23: "line_count lines_23 = 23"
    unfolding C1_upload_branch_iff [of lines_23 "''telegra.ph''" 4000, THEN conjunct1] b
    by simp
  have d: "upload_service_logic (int (length lines_22)) (line_count lines_22) ''telegra.ph'' 109
           = ''direct''"
    by (rule C1_upload_branch_iff [of lines_22 "''telegra.ph''" 109, THEN conjunct2,
                  THEN conjunct2, THEN conjunct1, rule_format])
       (simp add: a c)
  have u: "upload_service_logic (int (length lines_22)) (line_count lines_22) ''telegra.ph'' 108
           \<in> {''cwd.pw'', ''telegra.ph''}"
    by (rule C1_upload_branch_iff [of lines_22 "''telegra.ph''" 108, THEN conjunct2,
                  THEN conjunct2, THEN conjunct2, rule_format])
       (simp add: c)
  have w: "upload_service_logic (int (length lines_23)) (line_count lines_23) ''telegra.ph'' 4000
           \<in> {''cwd.pw'', ''telegra.ph''}"
    by (rule C1_upload_branch_iff [of lines_23 "''telegra.ph''" 4000, THEN conjunct2,
                  THEN conjunct2, THEN conjunct2, rule_format])
       (simp add: b)
  show ?thesis
    by (intro conjI l22 c d u l23 w)
qed

text \<open>
  C2. On the upload branch the paste adapter is chosen exactly when the lower-cased
  service name is \<open>cwd.pw\<close>, and the wiki-publishing collaborator in every other case,
  so exactly one of the two is named. Nothing is trimmed: the names that match are the
  six-character spellings of \<open>cwd.pw\<close> in small and capital letters and no others, and
  both \<open>" cwd.pw "\<close> and \<open>"invalid_service"\<close> go to the wiki-publishing collaborator.
\<close>

theorem C2_paste_adapter_selection:
  "line_count' > 22 \<or> response_length > telegram_max_length \<Longrightarrow>
     ((upload_service_logic response_length line_count' s telegram_max_length = ''cwd.pw'')
        = (lower s = ''cwd.pw''))
   \<and> ((upload_service_logic response_length line_count' s telegram_max_length = ''telegra.ph'')
        = (lower s \<noteq> ''cwd.pw''))
   \<and> ((upload_service_logic response_length line_count' s telegram_max_length = ''cwd.pw'')
        = (\<exists>a b c d e. s = [a, b, c, CHR ''.'', d, e]
             \<and> a \<in> {CHR ''c'', CHR ''C''} \<and> b \<in> {CHR ''w'', CHR ''W''}
             \<and> c \<in> {CHR ''d'', CHR ''D''} \<and> d \<in> {CHR ''p'', CHR ''P''}
             \<and> e \<in> {CHR ''w'', CHR ''W''}))
   \<and> upload_service_logic response_length line_count' '' cwd.pw '' telegram_max_length
        = ''telegra.ph''
   \<and> upload_service_logic response_length line_count' ''invalid_service'' telegram_max_length
        = ''telegra.ph''"
proof -
  assume g: "line_count' > 22 \<or> response_length > telegram_max_length"
  have a: "lower '' cwd.pw '' \<noteq> ''cwd.pw''"
    using lower_cwd_pw_length [of "'' cwd.pw ''"] by auto
  have b: "lower ''invalid_service'' \<noteq> ''cwd.pw''"
    using lower_cwd_pw_length [of "''invalid_service''"] by auto
  have c: "(upload_service_logic response_length line_count' s telegram_max_length = ''cwd.pw'')
           = (lower s = ''cwd.pw'')"
    using g by (simp add: upload_service_logic_def)
  show ?thesis
    unfolding c lower_eq_cwd_pw [symmetric]
    using g a b by (simp add: upload_service_logic_def)
qed

theorem C2_paste_adapter_selection_witness:
  "upload_service_logic 5000 10 ''CWD.PW'' 4000 = ''cwd.pw''
   \<and> lower ''CWD.PW'' = ''cwd.pw''
   \<and> upload_service_logic 5000 10 ''telegra.ph'' 4000 = ''telegra.ph''
   \<and> upload_service_logic 5000 10 '' cwd.pw '' 4000 = ''telegra.ph''
   \<and> upload_service_logic 5000 10 ''invalid_service'' 4000 = ''telegra.ph''"
proof -
  have l: "lower ''CWD.PW'' = ''cwd.pw''"
    by code_simp
  have t: "lower ''telegra.ph'' \<noteq> ''cwd.pw''"
    using lower_cwd_pw_length [of "''telegra.ph''"] by auto
  have g: "(10::int) > 22 \<or> (5000::int) > 4000"
    by simp
  from l t C2_paste_adapter_selection [OF g, of "''CWD.PW''"]
    C2_paste_adapter_selection [OF g, of "''telegra.ph''"]
  show ?thesis by simp
qed

section \<open>Properties of the string operations and of the adapters\<close>

lemma str_split_nonempty: "str_split sep s \<noteq> []"
  by (induction s) (auto split: list.splits)

lemma str_split_no_sep: "sep \<notin> set s \<Longrightarrow> str_split sep s = [s]"
  by (induction s) auto

lemma str_split_at_sep:
  "sep \<notin> set a \<Longrightarrow> str_split sep (a @ sep # r) = a # str_split sep r"
  by (induction a) auto

lemma str_split_max1_at_sep:
  "sep \<notin> set a \<Longrightarrow> str_split_max1 sep (a @ sep # r) = [a, r]"
proof -
  assume a: "sep \<notin> set a"
  have t: "takeWhile (\<lambda>c. c \<noteq> sep) (a @ sep # r) = a"
    using a by (induction a) auto
  have d: "dropWhile (\<lambda>c. c \<noteq> sep) (a @ sep # r) = sep # r"
    using a by (induction a) auto
  show ?thesis by (simp add: str_split_max1_def t d)
qed

lemma str_replace_absent_char:
  "c \<in> set old \<Longrightarrow> c \<notin> set s \<Longrightarrow> str_replace old new s = s"
proof (induction s)
  case Nil
  then show ?case by simp
next
  case (Cons x xs)
  have "\<not> prefix old (x # xs)"
    using Cons.prems set_mono_prefix by fastforce
  with Cons show ?case by simp
qed


lemma except_Exception_Inl: "except_Exception (requests, Inl e) = (requests, Inr None)"
  by (simp add: except_Exception_def)

lemma except_Exception_Inr: "except_Exception (requests, Inr r) = (requests, Inr r)"
  by (simp add: except_Exception_def)

lemma except_Exception_returns: "\<exists>r. snd (except_Exception x) = Inr r"
  by (cases x; cases "snd x") (auto simp: except_Exception_def)

lemma except_Exception_snd:
  "snd (except_Exception x) = (case snd x of Inl e \<Rightarrow> Inr None | Inr r \<Rightarrow> Inr r)"
  by (cases x; cases "snd x") (auto simp: except_Exception_def)

lemma except_Exception_idem: "except_Exception (except_Exception x) = except_Exception x"
  by (cases x; cases "snd x") (auto simp: except_Exception_def)

lemma parse_data_uri_steps:
  assumes "startswith base64_data ''data:image/''"
    and "str_split_max1 (CHR '','') base64_data = [header, pure_base64]"
    and "str_split (CHR '';'') header = h0 # hs"
    and "str_replace ''data:'' '''' h0 = mime_match"
    and "startswith mime_match ''image/''"
    and "str_split (CHR ''/'') mime_match = [t, extension]"
  shows "parse_data_uri base64_data
         = Inr (Some (mime_match, (if extension = ''jpeg'' then ''jpg'' else extension),
                      pure_base64))"
  by (simp add: parse_data_uri_def assms)

lemma parse_data_uri_wellformed:
  assumes "set subtype \<inter> set '',;/:'' = {}"
  shows "parse_data_uri (''data:image/'' @ subtype @ '';base64,'' @ pure_base64)
         = Inr (Some (''image/'' @ subtype,
                      (if subtype = ''jpeg'' then ''jpg'' else subtype), pure_base64))"
proof -
  from assms have c: "CHR '','' \<notin> set subtype" and s: "CHR '';'' \<notin> set subtype"
    and l: "CHR ''/'' \<notin> set subtype" and d: "CHR '':'' \<notin> set subtype"
    by auto
  have sw: "startswith (''data:image/'' @ subtype @ '';base64,'' @ pure_base64) ''data:image/''"
    by (simp add: startswith_def)
  have "str_split_max1 (CHR '','') ((''data:image/'' @ subtype @ '';base64'') @ CHR '','' # pure_base64)
        = [''data:image/'' @ subtype @ '';base64'', pure_base64]"
    using c by (intro str_split_max1_at_sep) simp
  then have sp: "str_split_max1 (CHR '','') (''data:image/'' @ subtype @ '';base64,'' @ pure_base64)
        = [''data:image/'' @ subtype @ '';base64'', pure_base64]"
    by simp
  have "str_split (CHR '';'') ((''data:image/'' @ subtype) @ CHR '';'' # ''base64'')
        = (''data:image/'' @ subtype) # str_split (CHR '';'') ''base64''"
    using s by (intro str_split_at_sep) simp
  then have hs: "str_split (CHR '';'') (''data:image/'' @ subtype @ '';base64'')
        = (''data:image/'' @ subtype) # [''base64'']"
    by simp
  have "str_replace ''data:'' '''' (''image/'' @ subtype) = ''image/'' @ subtype"
    using d by (intro str_replace_absent_char [of "CHR '':''"]) simp_all
  then have rp: "str_replace ''data:'' '''' (''data:image/'' @ subtype) = ''image/'' @ subtype"
    by simp
  have sw2: "startswith (''image/'' @ subtype) ''image/''"
    by (simp add: startswith_def)
  have "str_split (CHR ''/'') (''image'' @ CHR ''/'' # subtype) = ''image'' # str_split (CHR ''/'') subtype"
    by (intro str_split_at_sep) simp
  then have ms: "str_split (CHR ''/'') (''image/'' @ subtype) = [''image'', subtype]"
    using l by (simp add: str_split_no_sep)
  show ?thesis
    by (rule parse_data_uri_steps [OF sw sp hs rp sw2 ms])
qed

lemma parse_data_uri_prefix:
  "parse_data_uri base64_data = Inr (Some x) \<Longrightarrow> startswith base64_data ''data:image/''"
  by (auto simp: parse_data_uri_def split: if_splits)

lemma upload_base64_rejected:
  "image_validation env base64_data = Inr None
     \<Longrightarrow> upload_base64_image_to_cwd env base64_data api_key model prompt = ([], Inr None)"
  by (simp add: upload_base64_image_to_cwd_def upload_base64_image_to_cwd_try_def
        except_Exception_def)

lemma upload_base64_raised_early:
  "image_validation env base64_data = Inl e
     \<Longrightarrow> upload_base64_image_to_cwd env base64_data api_key model prompt = ([], Inr None)"
  by (simp add: upload_base64_image_to_cwd_def upload_base64_image_to_cwd_try_def
        except_Exception_def)

lemma upload_base64_valid:
  "image_validation env base64_data = Inr (Some (mime_match, extension, binary_data))
     \<Longrightarrow> fst (upload_base64_image_to_cwd env base64_data api_key model prompt)
         = [image_upload_request env mime_match extension binary_data api_key model prompt]"
  by (simp add: upload_base64_image_to_cwd_def upload_base64_image_to_cwd_try_def
        except_Exception_def Let_def split: sum.splits)

lemma upload_base64_returns:
  "\<exists>r. snd (upload_base64_image_to_cwd env base64_data api_key model prompt) = Inr r"
  by (simp add: upload_base64_image_to_cwd_def except_Exception_returns)

lemma upload_paste_returns:
  "\<exists>r. snd (upload_to_cwd_pw_paste env title content user_prompt debug_info raw_response) = Inr r"
  by (simp add: upload_to_cwd_pw_paste_def except_Exception_returns)

lemma upload_image_bytes_delegates:
  "upload_image_bytes_to_cwd env image_bytes api_key mime_type model prompt
   = upload_base64_image_to_cwd env
       (''data:'' @ mime_type @ '';base64,'' @ b64encode env image_bytes) api_key model prompt"
  by (simp add: upload_image_bytes_to_cwd_def upload_base64_image_to_cwd_def
        except_Exception_idem Let_def)




lemma image_upload_result_Some:
  "image_upload_result response = Inr (Some v) \<Longrightarrow>
     truthy v \<and> ok response
     \<and> (\<exists>result. json_body response = Inr result \<and> dict_get result ''imageUrl'' = Inr v)"
  by (auto simp: image_upload_result_def split: if_splits sum.splits)

lemma upload_base64_Some:
  assumes "snd (upload_base64_image_to_cwd env base64_data api_key model prompt) = Inr (Some v)"
  shows "truthy v \<and> (\<exists>request response result. post env request = Inr response \<and> ok response
            \<and> json_body response = Inr result \<and> dict_get result ''imageUrl'' = Inr v)"
  using assms image_upload_result_Some
  by (fastforce simp: upload_base64_image_to_cwd_def upload_base64_image_to_cwd_try_def
        except_Exception_def Let_def split: sum.splits option.splits prod.splits)

lemma paste_result_Some:
  "(paste_result response = Inr (Some location))
   = (status response \<in> {301, 302} \<and> headers response ''Location'' = Some location
      \<and> location \<noteq> [])"
  by (auto simp: paste_result_def split: option.splits sum.splits)

lemma paste_with_response:
  "post env (paste_request env title content user_prompt debug_info raw_response) = Inr response
   \<Longrightarrow> upload_to_cwd_pw_paste env title content user_prompt debug_info raw_response
       = ([paste_request env title content user_prompt debug_info raw_response],
          (case paste_result response of Inl e \<Rightarrow> Inr None | Inr r \<Rightarrow> Inr r))"
  by (simp add: upload_to_cwd_pw_paste_def upload_to_cwd_pw_paste_try_def Let_def
        except_Exception_def split: sum.splits)

lemma paste_with_error:
  "post env (paste_request env title content user_prompt debug_info raw_response) = Inl e
   \<Longrightarrow> upload_to_cwd_pw_paste env title content user_prompt debug_info raw_response
       = ([paste_request env title content user_prompt debug_info raw_response], Inr None)"
  by (simp add: upload_to_cwd_pw_paste_def upload_to_cwd_pw_paste_try_def Let_def
        except_Exception_def)

lemma paste_result_None:
  "status response \<notin> {301, 302} \<or> headers response ''Location'' = None
     \<or> headers response ''Location'' = Some []
   \<Longrightarrow> (case paste_result response of Inl e \<Rightarrow> Inr None | Inr r \<Rightarrow> Inr r) = Inr None"
  by (auto simp: paste_result_def split: option.splits sum.splits)

text \<open>
  C3, as amended. When the post gives a response, the paste adapter returns a location
  exactly when the status is 301 or 302 and the response has a \<open>Location\<close> header that
  is not empty, and the value returned is that header's. With any other status, with no
  \<open>Location\<close> header or with an empty one it returns \<open>None\<close>; when the post raises
  it returns \<open>None\<close> too. It never raises.
\<close>

theorem C3_paste_location_redirect:
  "(post env (paste_request env title content user_prompt debug_info raw_response) = Inr response
      \<longrightarrow> ((snd (upload_to_cwd_pw_paste env title content user_prompt debug_info raw_response)
              = Inr (Some location))
            = (status response \<in> {301, 302} \<and> headers response ''Location'' = Some location
               \<and> location \<noteq> []))
          \<and> (status response \<notin> {301, 302} \<or> headers response ''Location'' = None
               \<or> headers response ''Location'' = Some []
             \<longrightarrow> snd (upload_to_cwd_pw_paste env title content user_prompt debug_info
                        raw_response) = Inr None))
   \<and> (post env (paste_request env title content user_prompt debug_info raw_response) = Inl e
      \<longrightarrow> snd (upload_to_cwd_pw_paste env title content user_prompt debug_info raw_response)
            = Inr None)"
proof (intro conjI impI)
  assume p: "post env (paste_request env title content user_prompt debug_info raw_response)
             = Inr response"
  show "(snd (upload_to_cwd_pw_paste env title content user_prompt debug_info raw_response)
          = Inr (Some location))
        = (status response \<in> {301, 302} \<and> headers response ''Location'' = Some location
           \<and> location \<noteq> [])"
    using paste_result_Some [of response location]
    by (auto simp: paste_with_response [OF p] split: sum.splits)
next
  assume p: "post env (paste_request env title content user_prompt debug_info raw_response)
             = Inr response"
    and n: "status response \<notin> {301, 302} \<or> headers response ''Location'' = None
            \<or> headers response ''Location'' = Some []"
  show "snd (upload_to_cwd_pw_paste env title content user_prompt debug_info raw_response)
        = Inr None"
    by (simp add: paste_with_response [OF p] paste_result_None [OF n])
next
  assume "post env (paste_request env title content user_prompt debug_info raw_response) = Inl e"
  then show "snd (upload_to_cwd_pw_paste env title content user_prompt debug_info raw_response)
             = Inr None"
    by (simp add: paste_with_error)
qed

lemma post_env_of: "post (env_of p) = p"
  by (simp add: env_of_def)

theorem C3_paste_location_redirect_witness:
  "snd (upload_to_cwd_pw_paste env_redirect ''Test AI Response'' ''content'' '''' '''' '''')
     = Inr (Some ''https://cwd.pw/p/test123'')
   \<and> snd (upload_to_cwd_pw_paste env_bad_request ''Test AI Response'' ''content'' '''' '''' '''')
     = Inr None
   \<and> snd (upload_to_cwd_pw_paste env_timeout ''Test AI Response'' ''content'' '''' '''' '''')
     = Inr None"
proof -
  have a: "post env_redirect (paste_request env_redirect ''Test AI Response'' ''content'' '''' '''' '''')
           = Inr resp_redirect"
    by (simp add: env_redirect_def post_env_of)
  have b: "post env_bad_request
             (paste_request env_bad_request ''Test AI Response'' ''content'' '''' '''' '''')
           = Inr resp_bad_request"
    by (simp add: env_bad_request_def post_env_of)
  have c: "post env_timeout (paste_request env_timeout ''Test AI Response'' ''content'' '''' '''' '''')
           = Inl TimeoutError"
    by (simp add: env_timeout_def post_env_of)
  have r: "status resp_redirect \<in> {301, 302}
           \<and> headers resp_redirect ''Location'' = Some ''https://cwd.pw/p/test123''"
    by (simp add: resp_redirect_def)
  have s: "status resp_bad_request \<notin> {301, 302}"
    by (simp add: resp_bad_request_def)
  from a b c r s
    C3_paste_location_redirect [of env_redirect "''Test AI Response''" "''content''" "''''" "''''"
      "''''" resp_redirect "''https://cwd.pw/p/test123''" TimeoutError]
    C3_paste_location_redirect [of env_bad_request "''Test AI Response''" "''content''" "''''" "''''"
      "''''" resp_bad_request "''''" TimeoutError]
    C3_paste_location_redirect [of env_timeout "''Test AI Response''" "''content''" "''''" "''''"
      "''''" resp_bad_request "''''" TimeoutError]
  show ?thesis by simp
qed

theorem C3_empty_location_counterexample:
  "status resp_empty_location = 301
   \<and> headers resp_empty_location ''Location'' = Some ''''
   \<and> post env_empty_location (paste_request env_empty_location ''Test'' ''content'' '''' '''' '''')
       = Inr resp_empty_location
   \<and> snd (upload_to_cwd_pw_paste env_empty_location ''Test'' ''content'' '''' '''' '''')
       = Inr None
   \<and> snd (upload_to_cwd_pw_paste env_empty_location ''Test'' ''content'' '''' '''' '''')
       \<noteq> Inr (Some '''')"
proof -
  have p: "post env_empty_location
             (paste_request env_empty_location ''Test'' ''content'' '''' '''' '''')
           = Inr resp_empty_location"
    by (simp add: env_empty_location_def post_env_of)
  have r: "paste_result resp_empty_location = Inr None"
    by (simp add: paste_result_def resp_empty_location_def)
  show ?thesis
    by (simp add: paste_with_response [OF p] r p) (simp add: resp_empty_location_def)
qed

text \<open>
  What the validation rejects, for every decoder and every network. An input that does not
  begin with \<open>data:image/\<close>, an input whose extension as the adapter reads it (with
  \<open>jpeg\<close> renamed \<open>jpg\<close>) is none of \<open>png\<close>, \<open>jpg\<close>, \<open>webp\<close>, and an input whose
  payload the decoder refuses all end in \<open>None\<close> with no request posted; the last one
  after the decoder was asked. So does every \<open>data:image/<subtype>;base64,<payload>\<close>
  whose subtype has none of the characters \<open>, ; / :\<close> and is none of \<open>png\<close>,
  \<open>jpg\<close>, \<open>jpeg\<close>, \<open>webp\<close>, and so does every input without a comma. Altogether no
  request is posted exactly when the input does not pass the validation.
\<close>

lemma rejected_inputs_post_nothing:
  "(\<not> startswith base64_data ''data:image/''
      \<longrightarrow> upload_base64_image_to_cwd env base64_data api_key model prompt = ([], Inr None))
   \<and> (parse_data_uri base64_data = Inr (Some (mime_match, extension, pure_base64))
        \<and> extension \<notin> {''png'', ''jpg'', ''webp''}
      \<longrightarrow> upload_base64_image_to_cwd env base64_data api_key model prompt = ([], Inr None))
   \<and> (parse_data_uri base64_data = Inr (Some (mime_match, extension, pure_base64))
        \<and> b64decode env pure_base64 = Inl e
      \<longrightarrow> upload_base64_image_to_cwd env base64_data api_key model prompt = ([], Inr None))
   \<and> (set subtype \<inter> set '',;/:'' = {} \<and> subtype \<notin> {''png'', ''jpg'', ''jpeg'', ''webp''}
      \<longrightarrow> upload_base64_image_to_cwd env (''data:image/'' @ subtype @ '';base64,'' @ payload')
            api_key model prompt = ([], Inr None))
   \<and> (CHR '','' \<notin> set base64_data
      \<longrightarrow> upload_base64_image_to_cwd env base64_data api_key model prompt = ([], Inr None))
   \<and> ((fst (upload_base64_image_to_cwd env base64_data api_key model prompt) = [])
       = (\<forall>m x d. image_validation env base64_data \<noteq> Inr (Some (m, x, d))))"
proof (intro conjI impI)
  assume "\<not> startswith base64_data ''data:image/''"
  then have "image_validation env base64_data = Inr None"
    by (simp add: image_validation_def parse_data_uri_def)
  then show "upload_base64_image_to_cwd env base64_data api_key model prompt = ([], Inr None)"
    by (rule upload_base64_rejected)
next
  assume "parse_data_uri base64_data = Inr (Some (mime_match, extension, pure_base64))
          \<and> extension \<notin> {''png'', ''jpg'', ''webp''}"
  then have "image_validation env base64_data = Inr None"
    by (simp add: image_validation_def)
  then show "upload_base64_image_to_cwd env base64_data api_key model prompt = ([], Inr None)"
    by (rule upload_base64_rejected)
next
  assume "parse_data_uri base64_data = Inr (Some (mime_match, extension, pure_base64))
          \<and> b64decode env pure_base64 = Inl e"
  then have "image_validation env base64_data = Inr None"
    by (simp add: image_validation_def)
  then show "upload_base64_image_to_cwd env base64_data api_key model prompt = ([], Inr None)"
    by (rule upload_base64_rejected)
next
  assume a: "set subtype \<inter> set '',;/:'' = {} \<and> subtype \<notin> {''png'', ''jpg'', ''jpeg'', ''webp''}"
  then have "parse_data_uri (''data:image/'' @ subtype @ '';base64,'' @ payload')
             = Inr (Some (''image/'' @ subtype, subtype, payload'))"
    using parse_data_uri_wellformed [of subtype payload'] by simp
  with a have "image_validation env (''data:image/'' @ subtype @ '';base64,'' @ payload') = Inr None"
    by (simp add: image_validation_def)
  then show "upload_base64_image_to_cwd env (''data:image/'' @ subtype @ '';base64,'' @ payload')
               api_key model prompt = ([], Inr None)"
    by (rule upload_base64_rejected)
next
  assume "CHR '','' \<notin> set base64_data"
  then have "parse_data_uri base64_data = Inr None \<or> parse_data_uri base64_data = Inl ValueError"
    by (simp add: parse_data_uri_def str_split_max1_def)
  then have "image_validation env base64_data = Inr None
             \<or> image_validation env base64_data = Inl ValueError"
    by (auto simp: image_validation_def)
  then show "upload_base64_image_to_cwd env base64_data api_key model prompt = ([], Inr None)"
    using upload_base64_rejected upload_base64_raised_early by blast
next
  show "(fst (upload_base64_image_to_cwd env base64_data api_key model prompt) = [])
        = (\<forall>m x d. image_validation env base64_data \<noteq> Inr (Some (m, x, d)))"
  proof (cases "image_validation env base64_data")
    case (Inl e)
    then show ?thesis by (simp add: upload_base64_raised_early)
  next
    case (Inr r)
    show ?thesis
    proof (cases r)
      case None
      with Inr show ?thesis by (simp add: upload_base64_rejected)
    next
      case (Some v)
      obtain m x d where v: "v = (m, x, d)"
        by (cases v)
      with Inr Some show ?thesis
        by (simp add: upload_base64_valid)
    qed
  qed
qed

lemma rejected_inputs_post_nothing_examples:
  "upload_base64_image_to_cwd env_image_ok ''not a valid data uri'' ''k'' None None
     = ([], Inr None)
   \<and> upload_base64_image_to_cwd env_image_ok ''data:image/bmp;base64,dGVzdA=='' ''k''
       None None = ([], Inr None)
   \<and> upload_base64_image_to_cwd env_image_ok ''data:image/png;base64,invalid_base64_data!''
       ''k'' None None = ([], Inr None)
   \<and> upload_base64_image_to_cwd env_image_ok ''data:image/png'' ''k'' None None = ([], Inr None)"
proof -
  have a: "\<not> startswith ''not a valid data uri'' ''data:image/''"
    by (simp add: startswith_def)
  have b: "parse_data_uri ''data:image/bmp;base64,dGVzdA==''
           = Inr (Some (''image/bmp'', ''bmp'', ''dGVzdA==''))
           \<and> ''bmp'' \<notin> {''png'', ''jpg'', ''webp''}"
    by code_simp
  have c: "parse_data_uri ''data:image/png;base64,invalid_base64_data!''
           = Inr (Some (''image/png'', ''png'', ''invalid_base64_data!''))
           \<and> b64decode env_image_ok ''invalid_base64_data!'' = Inl Binascii_Error"
    by code_simp
  have d: "set ''bmp'' \<inter> set '',;/:'' = {} \<and> ''bmp'' \<notin> {''png'', ''jpg'', ''jpeg'', ''webp''}"
    by simp
  have f: "CHR '','' \<notin> set ''data:image/png''"
    by simp
  from a b c d f
    rejected_inputs_post_nothing [of "''data:image/png''" env_image_ok "''k''"
      None None "''image/bmp''" "''bmp''" "''dGVzdA==''" Binascii_Error "''bmp''" "''dGVzdA==''"]
    rejected_inputs_post_nothing [of "''not a valid data uri''" env_image_ok "''k''"
      None None "''image/bmp''" "''bmp''" "''dGVzdA==''" Binascii_Error "''bmp''" "''dGVzdA==''"]
    rejected_inputs_post_nothing [of "''data:image/bmp;base64,dGVzdA==''" env_image_ok
      "''k''" None None "''image/bmp''" "''bmp''" "''dGVzdA==''" Binascii_Error
      "''bmp''" "''dGVzdA==''"]
    rejected_inputs_post_nothing [of "''data:image/png;base64,invalid_base64_data!''" env_image_ok
      "''k''" None None "''image/png''" "''png''" "''invalid_base64_data!''"
      Binascii_Error "''bmp''" "''dGVzdA==''"]
  show ?thesis by simp
qed

lemma paste_Some:
  assumes "snd (upload_to_cwd_pw_paste env title content user_prompt debug_info raw_response)
           = Inr (Some location)"
  shows "location \<noteq> [] \<and> (\<exists>request response. post env request = Inr response
            \<and> status response \<in> {301, 302} \<and> headers response ''Location'' = Some location)"
proof (cases "post env (paste_request env title content user_prompt debug_info raw_response)")
  case (Inl e)
  with assms show ?thesis by (simp add: paste_with_error)
next
  case (Inr response)
  with assms have "paste_result response = Inr (Some location)"
    by (simp add: paste_with_response split: sum.splits)
  with Inr show ?thesis
    unfolding paste_result_Some by blast
qed

text \<open>
  No exception leaves an entry point. Whatever the input and whatever the network does (a
  raise, any response, a body that is no JSON or no object), each of the three entry
  points returns, and what is raised inside its \<open>try\<close> becomes the return value
  \<open>None\<close>. What an image entry point returns other than \<open>None\<close> is the truthy
  \<open>imageUrl\<close> member of the JSON object of a response; what the paste entry point
  returns other than \<open>None\<close> is the non-empty \<open>Location\<close> of a 301 or 302 response.
\<close>

lemma entry_points_never_raise:
  "(\<exists>r. snd (upload_base64_image_to_cwd env base64_data api_key model prompt) = Inr r)
   \<and> (\<exists>r. snd (upload_image_bytes_to_cwd env image_bytes api_key mime_type model prompt) = Inr r)
   \<and> (\<exists>r. snd (upload_to_cwd_pw_paste env title content user_prompt debug_info raw_response)
            = Inr r)
   \<and> (snd (upload_base64_image_to_cwd env base64_data api_key model prompt) = Inr (Some v)
      \<longrightarrow> truthy v
          \<and> (\<exists>request response result. post env request = Inr response \<and> ok response
                \<and> json_body response = Inr result \<and> dict_get result ''imageUrl'' = Inr v))
   \<and> (snd (upload_image_bytes_to_cwd env image_bytes api_key mime_type model prompt)
        = Inr (Some v')
      \<longrightarrow> truthy v'
          \<and> (\<exists>request response result. post env request = Inr response \<and> ok response
                \<and> json_body response = Inr result \<and> dict_get result ''imageUrl'' = Inr v'))
   \<and> (snd (upload_to_cwd_pw_paste env title content user_prompt debug_info raw_response)
        = Inr (Some location)
      \<longrightarrow> location \<noteq> []
          \<and> (\<exists>request response. post env request = Inr response
                \<and> status response \<in> {301, 302}
                \<and> headers response ''Location'' = Some location))
   \<and> snd (upload_base64_image_to_cwd env base64_data api_key model prompt)
       = (case snd (upload_base64_image_to_cwd_try env base64_data api_key model prompt) of
            Inl e \<Rightarrow> Inr None | Inr r \<Rightarrow> Inr r)
   \<and> snd (upload_to_cwd_pw_paste env title content user_prompt debug_info raw_response)
       = (case snd (upload_to_cwd_pw_paste_try env title content user_prompt debug_info
                      raw_response) of
            Inl e \<Rightarrow> Inr None | Inr r \<Rightarrow> Inr r)"
proof (intro conjI impI)
  show "\<exists>r. snd (upload_base64_image_to_cwd env base64_data api_key model prompt) = Inr r"
    by (rule upload_base64_returns)
  show "\<exists>r. snd (upload_image_bytes_to_cwd env image_bytes api_key mime_type model prompt) = Inr r"
    unfolding upload_image_bytes_delegates by (rule upload_base64_returns)
  show "\<exists>r. snd (upload_to_cwd_pw_paste env title content user_prompt debug_info raw_response)
          = Inr r"
    by (rule upload_paste_returns)
next
  assume a: "snd (upload_base64_image_to_cwd env base64_data api_key model prompt) = Inr (Some v)"
  from upload_base64_Some [OF a]
  show "truthy v"
    and "\<exists>request response result. post env request = Inr response \<and> ok response
           \<and> json_body response = Inr result \<and> dict_get result ''imageUrl'' = Inr v"
    by blast+
next
  assume "snd (upload_image_bytes_to_cwd env image_bytes api_key mime_type model prompt)
          = Inr (Some v')"
  then have a: "snd (upload_base64_image_to_cwd env
                  (''data:'' @ mime_type @ '';base64,'' @ b64encode env image_bytes)
                  api_key model prompt) = Inr (Some v')"
    by (simp add: upload_image_bytes_delegates)
  from upload_base64_Some [OF a]
  show "truthy v'"
    and "\<exists>request response result. post env request = Inr response \<and> ok response
           \<and> json_body response = Inr result \<and> dict_get result ''imageUrl'' = Inr v'"
    by blast+
next
  assume a: "snd (upload_to_cwd_pw_paste env title content user_prompt debug_info raw_response)
             = Inr (Some location)"
  from paste_Some [OF a]
  show "location \<noteq> []"
    and "\<exists>request response. post env request = Inr response \<and> status response \<in> {301, 302}
           \<and> headers response ''Location'' = Some location"
    by blast+
next
  show "snd (upload_base64_image_to_cwd env base64_data api_key model prompt)
       = (case snd (upload_base64_image_to_cwd_try env base64_data api_key model prompt) of
            Inl e \<Rightarrow> Inr None | Inr r \<Rightarrow> Inr r)"
    by (simp add: upload_base64_image_to_cwd_def except_Exception_snd)
  show "snd (upload_to_cwd_pw_paste env title content user_prompt debug_info raw_response)
       = (case snd (upload_to_cwd_pw_paste_try env title content user_prompt debug_info
                      raw_response) of
            Inl e \<Rightarrow> Inr None | Inr r \<Rightarrow> Inr r)"
    by (simp add: upload_to_cwd_pw_paste_def except_Exception_snd)
qed

lemma image_validation_png_data_uri:
  "image_validation (env_of p) png_data_uri = Inr (Some (''image/png'', ''png'', png_magic))"
  by code_simp

lemma upload_base64_with_response:
  assumes "image_validation env base64_data = Inr (Some (mime_match, extension, binary_data))"
    and "post env (image_upload_request env mime_match extension binary_data api_key model prompt)
         = Inr response"
  shows "snd (upload_base64_image_to_cwd env base64_data api_key model prompt)
         = (case image_upload_result response of Inl e \<Rightarrow> Inr None | Inr r \<Rightarrow> Inr r)"
  using assms
  by (simp add: upload_base64_image_to_cwd_def upload_base64_image_to_cwd_try_def
        except_Exception_def Let_def split: sum.splits)

lemma image_upload_result_ok:
  "image_upload_result resp_image_ok = Inr (Some (JStr ''https://cwd.pw/i/test123.png''))"
  by code_simp

lemma image_upload_result_numeric:
  "image_upload_result resp_image_numeric = Inr (Some (JNum 123))"
  by code_simp

lemma upload_png_image_ok:
  "snd (upload_base64_image_to_cwd env_image_ok png_data_uri api_key model prompt)
   = Inr (Some (JStr ''https://cwd.pw/i/test123.png''))"
proof -
  have v: "image_validation env_image_ok png_data_uri
           = Inr (Some (''image/png'', ''png'', png_magic))"
    unfolding env_image_ok_def by (rule image_validation_png_data_uri)
  have p: "post env_image_ok
             (image_upload_request env_image_ok ''image/png'' ''png'' png_magic api_key model prompt)
           = Inr resp_image_ok"
    by (simp add: env_image_ok_def post_env_of)
  show ?thesis
    by (simp add: upload_base64_with_response [OF v p] image_upload_result_ok)
qed

lemma upload_png_image_numeric:
  "snd (upload_base64_image_to_cwd env_image_numeric png_data_uri api_key model prompt)
   = Inr (Some (JNum 123))"
proof -
  have v: "image_validation env_image_numeric png_data_uri
           = Inr (Some (''image/png'', ''png'', png_magic))"
    unfolding env_image_numeric_def by (rule image_validation_png_data_uri)
  have p: "post env_image_numeric
             (image_upload_request env_image_numeric ''image/png'' ''png'' png_magic api_key model
                prompt)
           = Inr resp_image_numeric"
    by (simp add: env_image_numeric_def post_env_of)
  show ?thesis
    by (simp add: upload_base64_with_response [OF v p] image_upload_result_numeric)
qed

lemma entry_points_never_raise_examples:
  "snd (upload_base64_image_to_cwd env_image_ok png_data_uri ''k'' None None)
     = Inr (Some (JStr ''https://cwd.pw/i/test123.png''))
   \<and> snd (upload_image_bytes_to_cwd env_image_ok png_magic ''k'' ''image/png'' None None)
     = Inr (Some (JStr ''https://cwd.pw/i/test123.png''))
   \<and> truthy (JStr ''https://cwd.pw/i/test123.png'')
   \<and> (\<exists>request response result. post env_image_ok request = Inr response \<and> ok response
         \<and> json_body response = Inr result
         \<and> dict_get result ''imageUrl'' = Inr (JStr ''https://cwd.pw/i/test123.png''))
   \<and> snd (upload_to_cwd_pw_paste env_redirect ''Test'' ''content'' '''' '''' '''')
     = Inr (Some ''https://cwd.pw/p/test123'')
   \<and> (\<exists>request response. post env_redirect request = Inr response
         \<and> status response \<in> {301, 302}
         \<and> headers response ''Location'' = Some ''https://cwd.pw/p/test123'')
   \<and> snd (upload_base64_image_to_cwd_try env_timeout png_data_uri ''k'' None None)
     = Inl TimeoutError
   \<and> snd (upload_base64_image_to_cwd env_timeout png_data_uri ''k'' None None) = Inr None
   \<and> snd (upload_base64_image_to_cwd_try env_image_ok ''data:image/png'' ''k'' None None)
     = Inl ValueError
   \<and> snd (upload_base64_image_to_cwd env_image_ok ''data:image/png'' ''k'' None None)
     = Inr None"
proof -
  have x: "snd (upload_base64_image_to_cwd_try env_timeout png_data_uri ''k'' None None)
           = Inl TimeoutError"
    using image_validation_png_data_uri [of "\<lambda>request. Inl TimeoutError"]
    by (simp add: upload_base64_image_to_cwd_try_def env_timeout_def post_env_of Let_def)
  have y: "snd (upload_base64_image_to_cwd_try env_image_ok ''data:image/png'' ''k'' None None)
           = Inl ValueError"
    by code_simp
  have e: "''data:'' @ ''image/png'' @ '';base64,'' @ b64encode env_image_ok png_magic
           = png_data_uri"
    by code_simp
  have b: "snd (upload_image_bytes_to_cwd env_image_ok png_magic ''k'' ''image/png'' None None)
           = Inr (Some (JStr ''https://cwd.pw/i/test123.png''))"
    unfolding upload_image_bytes_delegates e by (rule upload_png_image_ok)
  have p: "post env_redirect (paste_request env_redirect ''Test'' ''content'' '''' '''' '''')
           = Inr resp_redirect"
    by (simp add: env_redirect_def post_env_of)
  have r: "paste_result resp_redirect = Inr (Some ''https://cwd.pw/p/test123'')"
    by (simp add: paste_result_def resp_redirect_def)
  have q: "snd (upload_to_cwd_pw_paste env_redirect ''Test'' ''content'' '''' '''' '''')
           = Inr (Some ''https://cwd.pw/p/test123'')"
    by (simp add: paste_with_response [OF p] r)
  from upload_png_image_ok [of "''k''" None None] b q x y
    entry_points_never_raise [of env_image_ok "''data:image/png''" "''k''" None None png_magic
      "''image/png''" "''Test''" "''content''" "''''" "''''" "''''"
      "JStr ''https://cwd.pw/i/test123.png''" "JStr ''https://cwd.pw/i/test123.png''"
      "''https://cwd.pw/p/test123''"]
    entry_points_never_raise [of env_image_ok png_data_uri "''k''" None None png_magic
      "''image/png''" "''Test''" "''content''" "''''" "''''" "''''"
      "JStr ''https://cwd.pw/i/test123.png''" "JStr ''https://cwd.pw/i/test123.png''"
      "''https://cwd.pw/p/test123''"]
    entry_points_never_raise [of env_redirect png_data_uri "''k''" None None png_magic
      "''image/png''" "''Test''" "''content''" "''''" "''''" "''''"
      "JStr ''https://cwd.pw/i/test123.png''" "JStr ''https://cwd.pw/i/test123.png''"
      "''https://cwd.pw/p/test123''"]
    entry_points_never_raise [of env_timeout png_data_uri "''k''" None None png_magic
      "''image/png''" "''Test''" "''content''" "''''" "''''" "''''"
      "JStr ''https://cwd.pw/i/test123.png''" "JStr ''https://cwd.pw/i/test123.png''"
      "''https://cwd.pw/p/test123''"]
  show ?thesis by simp
qed

text \<open>
  C4. The adapter does not reject every input whose MIME subtype is outside \<open>png\<close>,
  \<open>jpg\<close>, \<open>webp\<close> (with \<open>jpeg\<close> counted as \<open>jpg\<close>). In
  \<open>data:image/data:png;base64,iVBORw0KGgo=\<close> the subtype is \<open>data:png\<close>; line 34
  deletes every \<open>data:\<close> of the header and not only the leading one, so the adapter
  reads the type \<open>image/png\<close> and the extension \<open>png\<close>, the validation passes, and
  the request is posted (and here answered with a URL).
\<close>

theorem C4_data_in_subtype_is_posted:
  "parse_data_uri nested_data_uri = Inr (Some (''image/png'', ''png'', ''iVBORw0KGgo=''))
   \<and> fst (upload_base64_image_to_cwd env_image_ok nested_data_uri ''k'' None None)
     = [image_upload_request env_image_ok ''image/png'' ''png'' png_magic ''k'' None None]
   \<and> snd (upload_base64_image_to_cwd env_image_ok nested_data_uri ''k'' None None)
     = Inr (Some (JStr ''https://cwd.pw/i/test123.png''))"
proof -
  have q: "parse_data_uri nested_data_uri
           = Inr (Some (''image/png'', ''png'', ''iVBORw0KGgo=''))"
    by code_simp
  have v: "image_validation env_image_ok nested_data_uri
           = Inr (Some (''image/png'', ''png'', png_magic))"
    by code_simp
  have p: "post env_image_ok
             (image_upload_request env_image_ok ''image/png'' ''png'' png_magic ''k'' None None)
           = Inr resp_image_ok"
    by (simp add: env_image_ok_def post_env_of)
  have s: "snd (upload_base64_image_to_cwd env_image_ok nested_data_uri ''k'' None None)
           = Inr (Some (JStr ''https://cwd.pw/i/test123.png''))"
    by (simp add: upload_base64_with_response [OF v p] image_upload_result_ok)
  show ?thesis
    by (intro conjI q upload_base64_valid [OF v] s)
qed

text \<open>
  C5. The image entry points do not always return a URL string or \<open>None\<close>. When the
  service answers \<open>{"success": true, "imageUrl": 123}\<close>, lines 154 to 157 test the
  member \<open>imageUrl\<close> for truth only and return it as it is: both entry points return
  the number 123, against the docstring's "The URL of the uploaded image, or None". No
  exception leaves them there.
\<close>

theorem C5_numeric_image_url_returned:
  "snd (upload_base64_image_to_cwd env_image_numeric png_data_uri ''k'' None None)
     = Inr (Some (JNum 123))
   \<and> snd (upload_image_bytes_to_cwd env_image_numeric png_magic ''k'' ''image/png'' None None)
     = Inr (Some (JNum 123))"
proof -
  have e: "''data:'' @ ''image/png'' @ '';base64,'' @ b64encode env_image_numeric png_magic
           = png_data_uri"
    by code_simp
  have b: "snd (upload_image_bytes_to_cwd env_image_numeric png_magic ''k'' ''image/png''
                  None None)
           = Inr (Some (JNum 123))"
    unfolding upload_image_bytes_delegates e by (rule upload_png_image_numeric)
  show ?thesis
    by (intro conjI upload_png_image_numeric b)
qed








text \<open>
  C8. The byte-oriented entry point does what the data-URI entry point does on
  \<open>"data:" + mime_type + ";base64," + b64encode(image_bytes)\<close> with the same key, model
  and prompt: the same requests and the same result.
\<close>

theorem C8_bytes_entry_point_delegates:
  "upload_image_bytes_to_cwd env image_bytes api_key mime_type model prompt
   = upload_image_bytes_spec env image_bytes api_key mime_type model prompt"
  by (simp add: upload_image_bytes_spec_def upload_image_bytes_delegates)

theorem C8_bytes_entry_point_delegates_witness:
  "upload_image_bytes_to_cwd env_image_ok png_magic ''k'' ''image/png'' None None
     = upload_base64_image_to_cwd env_image_ok png_data_uri ''k'' None None
   \<and> snd (upload_image_bytes_to_cwd env_image_ok png_magic ''k'' ''image/png'' None None)
     = Inr (Some (JStr ''https://cwd.pw/i/test123.png''))"
proof -
  have e: "''data:'' @ ''image/png'' @ '';base64,'' @ b64encode env_image_ok png_magic
           = png_data_uri"
    by code_simp
  from e upload_png_image_ok [of "''k''" None None]
    C8_bytes_entry_point_delegates [of env_image_ok png_magic "''k''" "''image/png''" None None]
  show ?thesis by (simp add: upload_image_bytes_spec_def)
qed



section \<open>Properties of the delivery cascade\<close>

lemma length_truncation_suffix: "length truncation_suffix = 43"
  by (simp add: truncation_suffix_def)

lemma length_py_slice_to:
  "0 \<le> k \<Longrightarrow> length (py_slice_to k s) = min (length s) (nat k)"
  by (simp add: py_slice_to_def)

lemma length_truncated_response:
  "44 \<le> max_length \<Longrightarrow>
     length (truncated_response max_length response)
     = min (length response) (nat (max_length - 44)) + 43"
  by (simp add: truncated_response_def length_py_slice_to length_truncation_suffix)

lemma truncated_response_shorter_iff:
  "44 \<le> max_length \<Longrightarrow>
     (length (truncated_response max_length response) < length response)
     = (max_length \<le> int (length response))"
  by (auto simp: length_truncated_response min_def)

lemma adapter_calls_send_upload:
  "adapter_calls (send_upload cfg co response title) = [select_adapter cfg title response]"
  by (simp add: send_upload_def Let_def split: option.splits)

lemma adapter_calls_send_direct: "adapter_calls (send_direct co response parse_mode) = []"
  by (simp add: send_direct_def Let_def split: option.splits)

text \<open>
  The cascade modelled from the specification takes its decision as
  \<open>upload_service_logic\<close> of the tests does: no adapter is called where that function
  says \<open>direct\<close>, the paste adapter where it says \<open>cwd.pw\<close>, the wiki-publishing
  collaborator where it says \<open>telegra.ph\<close>.
\<close>

lemma send_response_decides_as_upload_service_logic:
  "adapter_calls (send_response cfg co response title parse_mode)
   = (let d = upload_service_logic (int (length response)) (line_count response)
                (UPLOAD_SERVICE cfg) (TELEGRAM_MAX_LENGTH cfg)
      in if d = ''direct'' then []
         else if d = ''cwd.pw'' then [PasteAdapter title response]
         else [WikiPublish title response])"
  by (simp add: send_response_def upload_service_logic_def select_adapter_def
        adapter_calls_send_upload adapter_calls_send_direct)

lemma send_upload_truncates:
  assumes "run_adapter co (select_adapter cfg title response) = None"
    and "edit co 0 (Edit response None) = Some err"
    and "is_too_long err"
  shows "edits (send_upload cfg co response title)
         = [Edit response None,
            Edit (truncated_response (TELEGRAM_MAX_LENGTH cfg) response) None]"
    and "adapter_calls (send_upload cfg co response title) = [select_adapter cfg title response]"
  using assms by (simp_all add: send_upload_def Let_def)

text \<open>
  C9, as amended. On the upload branch, when the adapter returns no URL and the plain-text
  edit fails with an error classified as "message too long", the edits of the dispatch are
  the plain-text one and then, last, the response cut to \<open>max_length - 44\<close> characters
  followed by the suffix \<open>"...\n\n(Response was truncated due to length)"\<close>; that text
  ends with the suffix. For a maximum of at least 44 its length is the smaller of the
  response's length and \<open>max_length - 44\<close>, plus 43, and it is shorter than the response
  exactly when the response has at least \<open>max_length\<close> characters.
\<close>

theorem C9_truncated_fallback:
  "(line_count response > 22 \<or> int (length response) > TELEGRAM_MAX_LENGTH cfg)
   \<and> run_adapter co (select_adapter cfg title response) = None
   \<and> edit co 0 (Edit response None) = Some err \<and> is_too_long err
   \<Longrightarrow>
     edits (send_response cfg co response title parse_mode)
       = [Edit response None,
          Edit (py_slice_to (TELEGRAM_MAX_LENGTH cfg - 44) response
                @ ''...'' @ [CHR 0x0A, CHR 0x0A] @ ''(Response was truncated due to length)'')
            None]
     \<and> suffix (''...'' @ [CHR 0x0A, CHR 0x0A] @ ''(Response was truncated due to length)'')
          (truncated_response (TELEGRAM_MAX_LENGTH cfg) response)
     \<and> (44 \<le> TELEGRAM_MAX_LENGTH cfg \<longrightarrow>
          length (truncated_response (TELEGRAM_MAX_LENGTH cfg) response)
            = min (length response) (nat (TELEGRAM_MAX_LENGTH cfg - 44)) + 43
          \<and> (length (truncated_response (TELEGRAM_MAX_LENGTH cfg) response) < length response)
            = (TELEGRAM_MAX_LENGTH cfg \<le> int (length response)))"
proof -
  assume a: "(line_count response > 22 \<or> int (length response) > TELEGRAM_MAX_LENGTH cfg)
   \<and> run_adapter co (select_adapter cfg title response) = None
   \<and> edit co 0 (Edit response None) = Some err \<and> is_too_long err"
  then have u: "send_response cfg co response title parse_mode
                = send_upload cfg co response title"
    by (simp add: send_response_def)
  from a have r: "run_adapter co (select_adapter cfg title response) = None"
    and f: "edit co 0 (Edit response None) = Some err" and t: "is_too_long err"
    by simp_all
  have e: "edits (send_upload cfg co response title)
         = [Edit response None,
            Edit (truncated_response (TELEGRAM_MAX_LENGTH cfg) response) None]"
    by (rule send_upload_truncates(1) [OF r f t])
  have s: "suffix (''...'' @ [CHR 0x0A, CHR 0x0A] @ ''(Response was truncated due to length)'')
             (truncated_response (TELEGRAM_MAX_LENGTH cfg) response)"
    unfolding truncated_response_def truncation_suffix_def by (rule suffix_appendI) simp
  show ?thesis
    using e s length_truncated_response [of "TELEGRAM_MAX_LENGTH cfg" response]
      truncated_response_shorter_iff [of "TELEGRAM_MAX_LENGTH cfg" response]
    unfolding u by (simp add: truncated_response_def truncation_suffix_def)
qed

lemma line_count_long_lines: "line_count long_lines = 4501"
  by (simp add: long_lines_def line_count_def count_list_replicate_same)

lemma length_long_lines: "length long_lines = 4500"
  by (simp add: long_lines_def)

theorem C9_truncated_not_shorter_counterexample:
  "line_count long_lines > 22
   \<and> run_adapter co_too_long (select_adapter cfg_5000 ''Test Title'' long_lines) = None
   \<and> edit co_too_long 0 (Edit long_lines None) = Some ''Message_too_long''
   \<and> is_too_long ''Message_too_long''
   \<and> edits (send_response cfg_5000 co_too_long long_lines ''Test Title'' None)
       = [Edit long_lines None, Edit (truncated_response 5000 long_lines) None]
   \<and> length (truncated_response 5000 long_lines) = 4543
   \<and> length long_lines = 4500"
proof -
  have l: "line_count long_lines > 22"
    by (simp add: line_count_long_lines)
  have s: "select_adapter cfg_5000 ''Test Title'' long_lines = PasteAdapter ''Test Title'' long_lines"
    unfolding select_adapter_def cfg_5000_def by code_simp
  have r: "run_adapter co_too_long (select_adapter cfg_5000 ''Test Title'' long_lines) = None"
    by (simp add: s co_too_long_def)
  have e: "edit co_too_long 0 (Edit long_lines None) = Some ''Message_too_long''"
    by (simp add: co_too_long_def)
  have t: "is_too_long ''Message_too_long''"
    by (simp add: is_too_long_def)
  have u: "send_response cfg_5000 co_too_long long_lines ''Test Title'' None
           = send_upload cfg_5000 co_too_long long_lines ''Test Title''"
    using l by (simp add: send_response_def)
  have m: "TELEGRAM_MAX_LENGTH cfg_5000 = 5000"
    by (simp add: cfg_5000_def)
  have n: "length (truncated_response 5000 long_lines) = 4543"
    by (simp add: length_truncated_response length_long_lines)
  from l r e t n send_upload_truncates(1) [OF r e t] show ?thesis
    by (simp add: u m length_long_lines)
qed

theorem C9_truncated_fallback_witness:
  "edits (send_response cfg_default co_too_long long_lines ''Test Title'' None)
     = [Edit long_lines None,
        Edit (py_slice_to (4000 - 44) long_lines
              @ ''...'' @ [CHR 0x0A, CHR 0x0A] @ ''(Response was truncated due to length)'')
          None]
   \<and> length (truncated_response 4000 long_lines) = 3999
   \<and> length (truncated_response 4000 long_lines) < length long_lines"
proof -
  have s: "select_adapter cfg_default ''Test Title'' long_lines
           = PasteAdapter ''Test Title'' long_lines"
    unfolding select_adapter_def cfg_default_def by code_simp
  have a: "(line_count long_lines > 22
            \<or> int (length long_lines) > TELEGRAM_MAX_LENGTH cfg_default)
   \<and> run_adapter co_too_long (select_adapter cfg_default ''Test Title'' long_lines) = None
   \<and> edit co_too_long 0 (Edit long_lines None) = Some ''Message_too_long''
   \<and> is_too_long ''Message_too_long''"
    by (simp add: s line_count_long_lines co_too_long_def is_too_long_def)
  have m: "TELEGRAM_MAX_LENGTH cfg_default = 4000"
    by (simp add: cfg_default_def)
  from C9_truncated_fallback [OF a, of None] show ?thesis
    by (simp add: m length_long_lines)
qed

end
